theory Spec2Isabelle
  imports Complex_Main "HOL-Library.Char_ord" "HOL-Library.List_Lexorder"
begin

section \<open>Geohash utilities (utils/geohash)\<close>

text \<open>
  JavaScript numbers are modelled as exact reals: rounding of the floating-point
  operations is not part of the model. Geohash precisions are integers.

  The module \<open>ngeohash\<close> is a third-party package that the repository imports; its two
  entry points used here are passed to the functions below as a record of functions, each
  assumed to return a value.
\<close>

record ngeohash =
  encode :: "real \<Rightarrow> real \<Rightarrow> int \<Rightarrow> string"
  neighbors :: "string \<Rightarrow> string list"

definition generateGeohash :: "ngeohash \<Rightarrow> real \<Rightarrow> real \<Rightarrow> int \<Rightarrow> string" where
  "generateGeohash lib latitude longitude precision = encode lib latitude longitude precision"

definition getGeohashNeighbors :: "ngeohash \<Rightarrow> string \<Rightarrow> string list" where
  "getGeohashNeighbors lib geohash = neighbors lib geohash"

definition getGeohashPrecisionForRadius :: "real \<Rightarrow> int" where
  "getGeohashPrecisionForRadius radiusMeters =
     (if radiusMeters \<ge> 5000 then 1
      else if radiusMeters \<ge> 1250 then 2
      else if radiusMeters \<ge> 156 then 3
      else if radiusMeters \<ge> 39 then 4
      else if radiusMeters \<ge> 4.9 then 5
      else if radiusMeters \<ge> 1.2 then 6
      else if radiusMeters \<ge> 0.153 then 7
      else if radiusMeters \<ge> 0.038 then 8
      else 9)"

definition getGeohashPrefixesForSearch :: "ngeohash \<Rightarrow> real \<Rightarrow> real \<Rightarrow> real \<Rightarrow> string list" where
  "getGeohashPrefixesForSearch lib latitude longitude radiusMeters =
     (let precision = getGeohashPrecisionForRadius radiusMeters;
          baseGeohash = generateGeohash lib latitude longitude precision
      in if radiusMeters \<le> 1000 then baseGeohash # getGeohashNeighbors lib baseGeohash
         else let shorterPrecision = max 1 (precision - 2);
                  prefixGeohash = generateGeohash lib latitude longitude shorterPrecision
              in [prefixGeohash])"

definition atan2 :: "real \<Rightarrow> real \<Rightarrow> real" where
  \<comment> \<open>\<open>Math.atan2(y, x)\<close>: the angle of the point \<open>(x, y)\<close>, in \<open>(-\<pi>, \<pi>]\<close>\<close>
  "atan2 y x =
     (if x > 0 then arctan (y / x)
      else if x < 0 \<and> y \<ge> 0 then arctan (y / x) + pi
      else if x < 0 \<and> y < 0 then arctan (y / x) - pi
      else if y > 0 then pi / 2
      else if y < 0 then - (pi / 2)
      else 0)"

definition calculateDistance :: "real \<Rightarrow> real \<Rightarrow> real \<Rightarrow> real \<Rightarrow> real" where
  "calculateDistance lat1 lon1 lat2 lon2 =
     (let R = 6371;
          dLat = (lat2 - lat1) * (pi / 180);
          dLon = (lon2 - lon1) * (pi / 180);
          a = sin (dLat / 2) * sin (dLat / 2) +
              cos (lat1 * (pi / 180)) * cos (lat2 * (pi / 180)) * sin (dLon / 2) * sin (dLon / 2);
          c = 2 * atan2 (sqrt a) (sqrt (1 - a))
      in R * c)"

text \<open>
  The step table of the specification, written from its words (thresholds in meters):
  5,000,000 m gives 1; 1,250,000 m gives 2; 156,000 m gives 3; 39,000 m gives 4;
  4,900 m gives 5; 1,200 m gives 6; 153 m gives 7; 38 m gives 8; anything smaller gives 9.
\<close>

definition precisionForRadius_spec :: "real \<Rightarrow> int" where
  "precisionForRadius_spec radiusMeters =
     (if radiusMeters \<ge> 5000000 then 1
      else if radiusMeters \<ge> 1250000 then 2
      else if radiusMeters \<ge> 156000 then 3
      else if radiusMeters \<ge> 39000 then 4
      else if radiusMeters \<ge> 4900 then 5
      else if radiusMeters \<ge> 1200 then 6
      else if radiusMeters \<ge> 153 then 7
      else if radiusMeters \<ge> 38 then 8
      else 9)"

section \<open>The encoder of the ngeohash package\<close>

text \<open>
  \<open>ngeohash.encode\<close> is the bisection loop of the third-party package (it is not part of
  the repository's own sources): longitude and latitude intervals are halved in turn, one bit
  per iteration, and every five bits give one character of the base-32 alphabet.

  The package computes on IEEE doubles, where the midpoint \<open>(max + min) / 2\<close> is rounded
  once the interval is narrow (from about twenty characters on). The loop below therefore
  takes the midpoint operation as a parameter, and what is proved of the loop is proved for
  every midpoint operation. \<open>ngeohash_encode\<close> is the loop with the exact midpoint; it is
  evaluated only at precisions 1 to 3, where every midpoint is a multiple of \<open>45 / 32\<close> and
  the doubles compute it exactly.

  The \<open>while\<close> loop runs on fuel; \<open>encode_loop_exit\<close> below shows that the fuel given by
  \<open>encode_with\<close> always reaches the loop's exit.
\<close>

definition BASE32_CODES :: string where
  "BASE32_CODES = ''0123456789bcdefghjkmnpqrstuvwxyz''"

record encode_state =
  chars :: string
  bits :: nat
  bitsTotal :: nat
  hash_value :: nat
  maxLat :: real
  minLat :: real
  maxLon :: real
  minLon :: real

definition encode_step ::
  "(real \<Rightarrow> real \<Rightarrow> real) \<Rightarrow> real \<Rightarrow> real \<Rightarrow> encode_state \<Rightarrow> encode_state" where
  "encode_step midpoint latitude longitude st =
     (let st1 =
        (if bitsTotal st mod 2 = 0 then
           (let mid = midpoint (maxLon st) (minLon st)
            in if longitude > mid
               then st\<lparr>hash_value := 2 * hash_value st + 1, minLon := mid\<rparr>
               else st\<lparr>hash_value := 2 * hash_value st + 0, maxLon := mid\<rparr>)
         else
           (let mid = midpoint (maxLat st) (minLat st)
            in if latitude > mid
               then st\<lparr>hash_value := 2 * hash_value st + 1, minLat := mid\<rparr>
               else st\<lparr>hash_value := 2 * hash_value st + 0, maxLat := mid\<rparr>));
          st2 = st1\<lparr>bits := bits st1 + 1, bitsTotal := bitsTotal st1 + 1\<rparr>
      in if bits st2 = 5
         then st2\<lparr>chars := chars st2 @ [BASE32_CODES ! hash_value st2], bits := 0, hash_value := 0\<rparr>
         else st2)"

fun encode_loop ::
  "nat \<Rightarrow> (real \<Rightarrow> real \<Rightarrow> real) \<Rightarrow> real \<Rightarrow> real \<Rightarrow> int \<Rightarrow> encode_state \<Rightarrow> encode_state" where
  "encode_loop 0 midpoint latitude longitude numberOfChars st = st"
| "encode_loop (Suc fuel) midpoint latitude longitude numberOfChars st =
     (if int (length (chars st)) < numberOfChars
      then encode_loop fuel midpoint latitude longitude numberOfChars
             (encode_step midpoint latitude longitude st)
      else st)"

definition encode_init :: encode_state where
  "encode_init = \<lparr>chars = [], bits = 0, bitsTotal = 0, hash_value = 0,
                  maxLat = 90, minLat = -90, maxLon = 180, minLon = -180\<rparr>"

definition encode_with :: "(real \<Rightarrow> real \<Rightarrow> real) \<Rightarrow> real \<Rightarrow> real \<Rightarrow> int \<Rightarrow> string" where
  "encode_with midpoint latitude longitude numberOfChars =
     chars (encode_loop (5 * nat numberOfChars) midpoint latitude longitude numberOfChars encode_init)"

definition ngeohash_encode :: "real \<Rightarrow> real \<Rightarrow> int \<Rightarrow> string" where
  "ngeohash_encode latitude longitude numberOfChars =
     encode_with (\<lambda>a b. (a + b) / 2) latitude longitude numberOfChars"

section \<open>Provider search (functions/serviceProviderFunctions)\<close>

text \<open>
  A field that a document or a request may lack is an \<open>option\<close>: \<open>None\<close> is JavaScript's
  \<open>undefined\<close>. The request location and the coordinates of a service area have the same
  shape, a latitude and a longitude, and share one record.
\<close>

record SearchLocation =
  latitude :: "real option"
  longitude :: "real option"

record ServiceAreaData =
  coordinates :: "SearchLocation option"
  radius :: "real option"
  geohash :: "string option"

record WorkingPreferences =
  serviceArea :: "ServiceAreaData option"

record SearchServiceProvidersRequest =
  serviceType :: "string option"
  location :: "SearchLocation option"

text \<open>A document of the collection \<open>serviceProviders\<close>: its id and the fields the search reads.\<close>

record ProviderDoc =
  docId :: string
  isActive :: bool
  services :: "string \<rightharpoonup> bool"
  extraOptions :: "string \<rightharpoonup> bool"
  workingPreferences :: "WorkingPreferences option"
  userId :: string
  rating :: "real option"
  totalJobs :: "real option"

record UserDoc =
  firstName :: "string option"
  lastName :: "string option"
  profileImage :: "string option"
  phone :: "string option"

record ServiceProviderProfile =
  profile_firstName :: string
  profile_lastName :: string
  profile_profileImage :: "string option"
  profile_phone :: string

record ServiceProviderResult =
  res_id :: string
  res_userId :: string
  res_profile :: ServiceProviderProfile
  res_services :: "string \<rightharpoonup> bool"
  res_extraOptions :: "string \<rightharpoonup> bool"
  res_workingPreferences :: "WorkingPreferences option"
  res_rating :: "real option"
  res_totalJobs :: "real option"
  res_distance :: int

datatype error = Error string | TypeError string

fun message :: "error \<Rightarrow> string" where
  "message (Error m) = m"
| "message (TypeError m) = m"

text \<open>The reads that a search issues against the document store, in order.\<close>

datatype store_read = ProvidersQuery string string | UsersGet string

definition Math_round :: "real \<Rightarrow> int" where
  "Math_round x = \<lfloor>x + 1 / 2\<rfloor>"

definition orEmpty :: "string option \<Rightarrow> string" where
  \<comment> \<open>\<open>v || ""\<close> on a string or \<open>undefined\<close>\<close>
  "orEmpty v = (case v of None \<Rightarrow> [] | Some s \<Rightarrow> s)"

definition geohashOf :: "ProviderDoc \<Rightarrow> string option" where
  "geohashOf doc =
     (case workingPreferences doc of None \<Rightarrow> None
      | Some wp \<Rightarrow> (case serviceArea wp of None \<Rightarrow> None | Some sa \<Rightarrow> geohash sa))"

definition queryProviders :: "ProviderDoc list \<Rightarrow> string \<Rightarrow> string \<Rightarrow> ProviderDoc list" where
  \<comment> \<open>the four \<open>where\<close> clauses; strings compare lexicographically by character code.
      The snapshot lists the matching documents in the order of the store's listing.\<close>
  "queryProviders store st geohashPrefix =
     filter (\<lambda>doc. isActive doc \<and> services doc st = Some True \<and>
                   (case geohashOf doc of None \<Rightarrow> False
                    | Some g \<Rightarrow> g \<ge> geohashPrefix \<and> g < geohashPrefix @ ''~''))
            store"

text \<open>
  The body of the loop over a snapshot. Reading \<open>latitude\<close> of an absent \<open>coordinates\<close>
  object throws a \<open>TypeError\<close> (the message is the one of the Node.js runtime). An absent
  latitude, longitude or radius reads as \<open>undefined\<close> and turns the arithmetic into
  \<open>NaN\<close>, and a comparison with \<open>NaN\<close> is false: the record is not pushed.
\<close>

definition scanDoc ::
  "(string \<rightharpoonup> UserDoc) \<Rightarrow> real \<Rightarrow> real \<Rightarrow> ProviderDoc \<Rightarrow>
   ServiceProviderResult list \<Rightarrow> store_read list \<Rightarrow>
   (error + ServiceProviderResult list) \<times> store_read list" where
  "scanDoc users lat1 lon1 provider providers reads =
     (case (case workingPreferences provider of None \<Rightarrow> None | Some wp \<Rightarrow> serviceArea wp) of
        None \<Rightarrow> (Inr providers, reads)
      | Some sa \<Rightarrow>
          (case coordinates sa of
             None \<Rightarrow>
               (Inl (TypeError ''Cannot read properties of undefined (reading 'latitude')''), reads)
           | Some c \<Rightarrow>
               (case (latitude c, longitude c, radius sa) of
                  (Some lat2, Some lon2, Some rad) \<Rightarrow>
                    (let distance = calculateDistance lat1 lon1 lat2 lon2
                     in if distance \<le> rad / 1000
                        then
                          (let userData = users (userId provider)
                           in (Inr (providers @
                                 [\<lparr>res_id = docId provider,
                                   res_userId = userId provider,
                                   res_profile =
                                     \<lparr>profile_firstName = orEmpty (Option.bind userData firstName),
                                      profile_lastName = orEmpty (Option.bind userData lastName),
                                      profile_profileImage = Option.bind userData profileImage,
                                      profile_phone = orEmpty (Option.bind userData phone)\<rparr>,
                                   res_services = services provider,
                                   res_extraOptions = extraOptions provider,
                                   res_workingPreferences = workingPreferences provider,
                                   res_rating = rating provider,
                                   res_totalJobs = totalJobs provider,
                                   res_distance = Math_round (distance * 1000)\<rparr>]),
                               reads @ [UsersGet (userId provider)]))
                        else (Inr providers, reads))
                | _ \<Rightarrow> (Inr providers, reads))))"

fun scanDocs ::
  "(string \<rightharpoonup> UserDoc) \<Rightarrow> real \<Rightarrow> real \<Rightarrow> ProviderDoc list \<Rightarrow>
   ServiceProviderResult list \<Rightarrow> store_read list \<Rightarrow>
   (error + ServiceProviderResult list) \<times> store_read list" where
  "scanDocs users lat1 lon1 [] providers reads = (Inr providers, reads)"
| "scanDocs users lat1 lon1 (doc # docs) providers reads =
     (case scanDoc users lat1 lon1 doc providers reads of
        (Inl e, reads') \<Rightarrow> (Inl e, reads')
      | (Inr providers', reads') \<Rightarrow> scanDocs users lat1 lon1 docs providers' reads')"

fun scanPrefixes ::
  "(string \<rightharpoonup> UserDoc) \<Rightarrow> ProviderDoc list \<Rightarrow> string \<Rightarrow> real \<Rightarrow> real \<Rightarrow> string list \<Rightarrow>
   ServiceProviderResult list \<Rightarrow> store_read list \<Rightarrow>
   (error + ServiceProviderResult list) \<times> store_read list" where
  "scanPrefixes users store st lat1 lon1 [] providers reads = (Inr providers, reads)"
| "scanPrefixes users store st lat1 lon1 (geohashPrefix # rest) providers reads =
     (let snapshot = queryProviders store st geohashPrefix
      in case scanDocs users lat1 lon1 snapshot providers (reads @ [ProvidersQuery st geohashPrefix]) of
           (Inl e, reads') \<Rightarrow> (Inl e, reads')
         | (Inr providers', reads') \<Rightarrow> scanPrefixes users store st lat1 lon1 rest providers' reads')"

definition searchBody ::
  "ngeohash \<Rightarrow> (string \<rightharpoonup> UserDoc) \<Rightarrow> ProviderDoc list \<Rightarrow> SearchServiceProvidersRequest \<Rightarrow>
   (error + ServiceProviderResult list) \<times> store_read list" where
  \<comment> \<open>the body of the \<open>try\<close> block; \<open>!v\<close> holds of \<open>undefined\<close>, of the empty string and of 0\<close>
  "searchBody lib users store request =
     (case (serviceType request, location request) of
        (Some st, Some loc) \<Rightarrow>
          (case (latitude loc, longitude loc) of
             (Some lat1, Some lon1) \<Rightarrow>
               if st = [] \<or> lat1 = 0 \<or> lon1 = 0
               then (Inl (Error ''Invalid request parameters''), [])
               else
                 (let searchRadius = 50000;
                      geohashPrefixes = getGeohashPrefixesForSearch lib lat1 lon1 searchRadius
                  in case scanPrefixes users store st lat1 lon1 geohashPrefixes [] [] of
                       (Inl e, reads) \<Rightarrow> (Inl e, reads)
                     | (Inr providers, reads) \<Rightarrow> (Inr (sort_key res_distance providers), reads))
           | _ \<Rightarrow> (Inl (Error ''Invalid request parameters''), []))
      | _ \<Rightarrow> (Inl (Error ''Invalid request parameters''), []))"

definition searchServiceProviders ::
  "ngeohash \<Rightarrow> (string \<rightharpoonup> UserDoc) \<Rightarrow> ProviderDoc list \<Rightarrow> SearchServiceProvidersRequest \<Rightarrow>
   (error + ServiceProviderResult list) \<times> store_read list" where
  \<comment> \<open>the \<open>catch\<close> clause rethrows every error under one message prefix\<close>
  "searchServiceProviders lib users store request =
     (case searchBody lib users store request of
        (Inl e, reads) \<Rightarrow> (Inl (Error (''Failed to search service providers: '' @ message e)), reads)
      | (Inr providers, reads) \<Rightarrow> (Inr providers, reads))"

section \<open>Predicates used in the proofs\<close>

definition encode_inv :: "encode_state \<Rightarrow> bool" where
  "encode_inv st =
     (bits st < 5 \<and> hash_value st < 2 ^ bits st \<and> set (chars st) \<subseteq> set BASE32_CODES)"

definition withinOwnRadius :: "real \<Rightarrow> real \<Rightarrow> ProviderDoc \<Rightarrow> ServiceProviderResult \<Rightarrow> bool" where
  "withinOwnRadius lat1 lon1 d r =
     (res_id r = docId d \<and> res_workingPreferences r = workingPreferences d \<and>
      (\<exists>wp sa c lat2 lon2 rad.
         workingPreferences d = Some wp \<and> serviceArea wp = Some sa \<and> coordinates sa = Some c \<and>
         latitude c = Some lat2 \<and> longitude c = Some lon2 \<and> radius sa = Some rad \<and>
         calculateDistance lat1 lon1 lat2 lon2 \<le> rad / 1000 \<and>
         res_distance r = Math_round (calculateDistance lat1 lon1 lat2 lon2 * 1000)))"

definition skipped :: "ProviderDoc \<Rightarrow> bool" where
  "skipped d =
     (case workingPreferences d of None \<Rightarrow> True
      | Some wp \<Rightarrow>
          (case serviceArea wp of None \<Rightarrow> True
           | Some sa \<Rightarrow>
               (case coordinates sa of None \<Rightarrow> False
                | Some c \<Rightarrow> latitude c = None \<or> longitude c = None \<or> radius sa = None)))"

definition invalidRequest :: "SearchServiceProvidersRequest \<Rightarrow> bool" where
  "invalidRequest request =
     (serviceType request = None \<or> serviceType request = Some [] \<or>
      (case location request of None \<Rightarrow> True
       | Some loc \<Rightarrow> latitude loc = None \<or> latitude loc = Some 0 \<or>
                     longitude loc = None \<or> longitude loc = Some 0))"

section \<open>Example data\<close>

text \<open>
  A small store around Lagos (6.5244, 3.3792), geohash \<open>s14mhgs\<close>: one provider at the query
  point, one about a meter north of it, one about 10 km north with a 5 km radius, one
  inactive, one whose service area lacks its latitude, and one whose service area lacks the
  coordinates object. A further provider, \<open>provider_up\<close>, lies \<open>\<pi> / 2\<close> meters (about
  1.57 m) north of the query point, a distance that \<open>Math.round\<close> takes up to 2.
  \<open>example_neighbors\<close> lists the eight cells around \<open>s14\<close>, north
  first and clockwise; no other cell is asked for.
\<close>

definition example_neighbors :: "string \<Rightarrow> string list" where
  "example_neighbors g =
     (if g = ''s14'' then [''s16'', ''s17'', ''s15'', ''s0g'', ''s0f'', ''s0c'', ''s11'', ''s13''] else [])"

definition example_lib :: ngeohash where
  "example_lib = \<lparr>encode = ngeohash_encode, neighbors = example_neighbors\<rparr>"

definition lagos_lat :: real where "lagos_lat = 6.5244"
definition lagos_lon :: real where "lagos_lon = 3.3792"
definition near_lat :: real where "near_lat = 6.52441"
definition far_lat :: real where "far_lat = 6.6144"

definition example_area :: "real option \<Rightarrow> real \<Rightarrow> WorkingPreferences option" where
  "example_area lat rad =
     Some \<lparr>serviceArea = Some \<lparr>coordinates = Some \<lparr>latitude = lat, longitude = Some lagos_lon\<rparr>,
                               radius = Some rad, geohash = Some ''s14mhgs''\<rparr>\<rparr>"

definition example_provider :: "string \<Rightarrow> WorkingPreferences option \<Rightarrow> ProviderDoc" where
  "example_provider uid wp =
     \<lparr>docId = uid, isActive = True, services = [''classic-cleaning'' \<mapsto> True],
      extraOptions = Map.empty, workingPreferences = wp, userId = uid,
      rating = None, totalJobs = None\<rparr>"

definition provider_near :: ProviderDoc where
  "provider_near = example_provider ''near'' (example_area (Some near_lat) 1000)"

definition provider_here :: ProviderDoc where
  "provider_here = example_provider ''here'' (example_area (Some lagos_lat) 5000)"

definition provider_far :: ProviderDoc where
  "provider_far = example_provider ''far'' (example_area (Some far_lat) 5000)"

definition provider_no_latitude :: ProviderDoc where
  "provider_no_latitude = example_provider ''nolat'' (example_area None 5000)"

definition provider_no_coordinates :: ProviderDoc where
  "provider_no_coordinates =
     example_provider ''nocoord''
       (Some \<lparr>serviceArea = Some \<lparr>coordinates = None, radius = Some 5000, geohash = Some ''s14mhgs''\<rparr>\<rparr>)"

definition provider_inactive :: ProviderDoc where
  "provider_inactive = (example_provider ''inactive'' (example_area (Some lagos_lat) 5000))\<lparr>isActive := False\<rparr>"

definition example_store :: "ProviderDoc list" where
  "example_store = [provider_near, provider_no_latitude, provider_far, provider_inactive, provider_here]"

definition example_users :: "string \<rightharpoonup> UserDoc" where
  "example_users =
     [''here'' \<mapsto> \<lparr>firstName = Some ''Ada'', lastName = Some ''Obi'', profileImage = None, phone = Some ''0800''\<rparr>]"

definition example_request :: SearchServiceProvidersRequest where
  "example_request =
     \<lparr>serviceType = Some ''classic-cleaning'',
      location = Some \<lparr>latitude = Some lagos_lat, longitude = Some lagos_lon\<rparr>\<rparr>"

definition up_lat :: real where "up_lat = 6.5244 + 90 / 6371000"

definition provider_up :: ProviderDoc where
  "provider_up = example_provider ''up'' (example_area (Some up_lat) 1000)"

definition example_result :: "string \<Rightarrow> string \<Rightarrow> string \<Rightarrow> string \<Rightarrow> WorkingPreferences option \<Rightarrow> int \<Rightarrow> ServiceProviderResult" where
  "example_result uid fname lname ph wp meters =
     \<lparr>res_id = uid, res_userId = uid,
      res_profile = \<lparr>profile_firstName = fname, profile_lastName = lname,
                     profile_profileImage = None, profile_phone = ph\<rparr>,
      res_services = [''classic-cleaning'' \<mapsto> True], res_extraOptions = Map.empty,
      res_workingPreferences = wp, res_rating = None, res_totalJobs = None,
      res_distance = meters\<rparr>"

definition result_here :: ServiceProviderResult where
  "result_here = example_result ''here'' ''Ada'' ''Obi'' ''0800'' (example_area (Some lagos_lat) 5000) 0"

definition result_near :: ServiceProviderResult where
  "result_near = example_result ''near'' [] [] [] (example_area (Some near_lat) 1000) 1"

definition result_up :: ServiceProviderResult where
  "result_up = example_result ''up'' [] [] [] (example_area (Some up_lat) 1000) 2"

definition example_reads :: "store_read list" where
  "example_reads = [ProvidersQuery ''classic-cleaning'' ''s'', UsersGet ''near'', UsersGet ''here'']"

section \<open>Properties of the geohash utilities\<close>

lemma precision_range: "1 \<le> getGeohashPrecisionForRadius r \<and> getGeohashPrecisionForRadius r \<le> 9"
  by (simp add: getGeohashPrecisionForRadius_def)

lemma precision_antimono:
  assumes "r1 \<le> r2"
  shows "getGeohashPrecisionForRadius r2 \<le> getGeohashPrecisionForRadius r1"
  using assms unfolding getGeohashPrecisionForRadius_def
  by (simp split: if_splits)

text \<open>
  C2. The code compares the radius, documented as meters, with the kilometre figures of
  its own comment (5000, 1250, 156, 39, 4.9, 1.2, 0.153, 0.038), not with the meter
  thresholds of the table. At the 50 km radius that the search passes in, the code answers
  precision 1 where the table answers 4; at 100 m it answers 4 where the table answers 8.
\<close>

theorem precision_table_mismatch:
  "getGeohashPrecisionForRadius 50000 = 1 \<and> precisionForRadius_spec 50000 = 4 \<and>
   getGeohashPrecisionForRadius 100 = 4 \<and> precisionForRadius_spec 100 = 8"
  by (simp add: getGeohashPrecisionForRadius_def precisionForRadius_spec_def)

text \<open>
  C8. The precision returned by \<open>getGeohashPrecisionForRadius\<close> does not increase when
  the radius grows: for radii \<open>r1 \<le> r2\<close> the precision at \<open>r1\<close> is at least the one at \<open>r2\<close>.
\<close>

theorem precision_monotone:
  "r1 \<le> r2 \<Longrightarrow> getGeohashPrecisionForRadius r1 \<ge> getGeohashPrecisionForRadius r2"
  by (rule precision_antimono)

theorem precision_monotone_witness:
  "(100::real) \<le> 2000 \<and> getGeohashPrecisionForRadius 100 \<ge> getGeohashPrecisionForRadius 2000 \<and>
   getGeohashPrecisionForRadius 100 = 4 \<and> getGeohashPrecisionForRadius 2000 = 2"
  using precision_monotone [of 100 2000]
  by (simp add: getGeohashPrecisionForRadius_def)

text \<open>
  C5. For a radius of at most 1000 m, \<open>getGeohashPrefixesForSearch\<close> returns the geohash
  of the coordinate at the precision chosen by \<open>getGeohashPrecisionForRadius\<close>, followed by
  the neighbours of that geohash, so that geohash is a member of the result; for a larger
  radius it returns the single geohash of the coordinate at precision
  \<open>max 1 (precision - 2)\<close>.
\<close>

theorem prefixes_for_search:
  "(radiusMeters \<le> 1000 \<longrightarrow>
      getGeohashPrefixesForSearch lib lat lon radiusMeters =
        generateGeohash lib lat lon (getGeohashPrecisionForRadius radiusMeters) #
        getGeohashNeighbors lib (generateGeohash lib lat lon (getGeohashPrecisionForRadius radiusMeters)) \<and>
      generateGeohash lib lat lon (getGeohashPrecisionForRadius radiusMeters)
        \<in> set (getGeohashPrefixesForSearch lib lat lon radiusMeters)) \<and>
   (radiusMeters > 1000 \<longrightarrow>
      getGeohashPrefixesForSearch lib lat lon radiusMeters =
        [generateGeohash lib lat lon (max 1 (getGeohashPrecisionForRadius radiusMeters - 2))])"
  by (simp add: getGeohashPrefixesForSearch_def Let_def)

section \<open>The encoder loop\<close>

lemma encode_inv_init: "encode_inv encode_init"
  by (simp add: encode_inv_def encode_init_def)

lemma BASE32_CODES_nth: "h < 32 \<Longrightarrow> BASE32_CODES ! h \<in> set BASE32_CODES"
proof -
  have "length BASE32_CODES = 32" by (simp add: BASE32_CODES_def)
  then show "h < 32 \<Longrightarrow> BASE32_CODES ! h \<in> set BASE32_CODES" by (metis nth_mem)
qed

lemma encode_step_bits:
  assumes "bits st < 5"
  shows "bits st = 4 \<longrightarrow> length (chars (encode_step m lat lon st)) = Suc (length (chars st)) \<and>
                          bits (encode_step m lat lon st) = 0"
    and "bits st \<noteq> 4 \<longrightarrow> chars (encode_step m lat lon st) = chars st \<and>
                          bits (encode_step m lat lon st) = Suc (bits st)"
  using assms by (auto simp: encode_step_def Let_def)

lemma encode_step_inv:
  assumes "encode_inv st"
  shows "encode_inv (encode_step m lat lon st)"
proof -
  from assms have b: "bits st < 5" and h: "hash_value st < 2 ^ bits st"
    by (simp_all add: encode_inv_def)
  have h32: "bits st = 4 \<Longrightarrow> 2 * hash_value st + 1 < 32"
    using h by simp
  have hs: "bits st \<noteq> 4 \<Longrightarrow> 2 * hash_value st + 1 < 2 ^ Suc (bits st)"
    using h by simp
  show ?thesis
    using assms h32 hs BASE32_CODES_nth [of "2 * hash_value st + 1"] BASE32_CODES_nth [of "2 * hash_value st"]
    unfolding encode_inv_def encode_step_def Let_def
    by (auto split: if_splits)
qed

lemma encode_loop_length:
  assumes "bits st < 5" and "int (length (chars st)) \<le> n"
    and "5 * (nat n - length (chars st)) \<le> fuel + bits st"
  shows "int (length (chars (encode_loop fuel m lat lon n st))) = n"
  using assms
proof (induction fuel arbitrary: st)
  case 0
  then show ?case by simp
next
  case (Suc fuel)
  show ?case
  proof (cases "int (length (chars st)) < n")
    case False
    with Suc.prems show ?thesis by simp
  next
    case True
    let ?st = "encode_step m lat lon st"
    have "bits ?st < 5 \<and> int (length (chars ?st)) \<le> n \<and> 5 * (nat n - length (chars ?st)) \<le> fuel + bits ?st"
      using encode_step_bits [OF Suc.prems(1), of m lat lon] Suc.prems True
      by (cases "bits st = 4") auto
    then have "int (length (chars (encode_loop fuel m lat lon n ?st))) = n"
      using Suc.IH by blast
    with True show ?thesis by simp
  qed
qed

lemma encode_loop_inv:
  "encode_inv st \<Longrightarrow> encode_inv (encode_loop fuel m lat lon n st)"
  by (induction fuel arbitrary: st) (simp_all add: encode_step_inv)

lemma encode_with_length:
  assumes "0 \<le> n"
  shows "int (length (encode_with m lat lon n)) = n"
  unfolding encode_with_def
  using assms by (intro encode_loop_length) (simp_all add: encode_init_def)

lemma encode_loop_exit:
  "\<not> int (length (chars (encode_loop (5 * nat n) m lat lon n encode_init))) < n"
proof (cases "0 \<le> n")
  case True
  then show ?thesis using encode_with_length [of n m lat lon] by (simp add: encode_with_def)
next
  case False
  then show ?thesis by simp
qed


lemma encode_with_alphabet: "set (encode_with m lat lon n) \<subseteq> set BASE32_CODES"
  using encode_loop_inv [OF encode_inv_init] by (simp add: encode_with_def encode_inv_def)

section \<open>The search loop\<close>

lemma prefixes_50km:
  "getGeohashPrefixesForSearch lib lat1 lon1 50000 = [encode lib lat1 lon1 1]"
  by (simp add: getGeohashPrefixesForSearch_def getGeohashPrecisionForRadius_def generateGeohash_def)

lemma scanDoc_Inr:
  assumes "scanDoc users lat1 lon1 d ps rs = (Inr ps', rs')"
  shows "ps' = ps \<or> (\<exists>r. ps' = ps @ [r] \<and> withinOwnRadius lat1 lon1 d r)"
  using assms unfolding scanDoc_def withinOwnRadius_def
  by (auto simp: Let_def split: option.splits if_splits)

lemma scanDocs_Inr:
  assumes "scanDocs users lat1 lon1 docs ps rs = (Inr ps', rs')"
  shows "\<exists>new. ps' = ps @ new \<and> (\<forall>r\<in>set new. \<exists>d\<in>set docs. withinOwnRadius lat1 lon1 d r)"
  using assms
proof (induction docs arbitrary: ps rs)
  case Nil
  then show ?case by simp
next
  case (Cons d docs)
  then obtain ps1 rs1 where s1: "scanDoc users lat1 lon1 d ps rs = (Inr ps1, rs1)"
    and s2: "scanDocs users lat1 lon1 docs ps1 rs1 = (Inr ps', rs')"
    by (auto split: prod.splits sum.splits)
  from Cons.IH [OF s2] obtain new where
    n: "ps' = ps1 @ new" "\<forall>r\<in>set new. \<exists>d\<in>set docs. withinOwnRadius lat1 lon1 d r"
    by blast
  from scanDoc_Inr [OF s1] show ?case
  proof
    assume "ps1 = ps"
    with n show ?thesis by auto
  next
    assume "\<exists>r. ps1 = ps @ [r] \<and> withinOwnRadius lat1 lon1 d r"
    then obtain r where "ps1 = ps @ [r]" "withinOwnRadius lat1 lon1 d r" by blast
    with n have "ps' = ps @ (r # new)"
      "\<forall>r'\<in>set (r # new). \<exists>d'\<in>set (d # docs). withinOwnRadius lat1 lon1 d' r'"
      by auto
    then show ?thesis by blast
  qed
qed

lemma set_queryProviders: "set (queryProviders store st p) \<subseteq> set store"
  by (auto simp: queryProviders_def)

lemma scanPrefixes_Inr:
  assumes "scanPrefixes users store st lat1 lon1 prefixes ps rs = (Inr ps', rs')"
  shows "\<exists>new. ps' = ps @ new \<and> (\<forall>r\<in>set new. \<exists>d\<in>set store. withinOwnRadius lat1 lon1 d r)"
  using assms
proof (induction prefixes arbitrary: ps rs)
  case Nil
  then show ?case by simp
next
  case (Cons p prefixes)
  then obtain ps1 rs1 where
    s1: "scanDocs users lat1 lon1 (queryProviders store st p) ps (rs @ [ProvidersQuery st p]) = (Inr ps1, rs1)"
    and s2: "scanPrefixes users store st lat1 lon1 prefixes ps1 rs1 = (Inr ps', rs')"
    by (auto simp: Let_def split: prod.splits sum.splits)
  from scanDocs_Inr [OF s1] set_queryProviders [of store st p] obtain new1 where
    n1: "ps1 = ps @ new1" "\<forall>r\<in>set new1. \<exists>d\<in>set store. withinOwnRadius lat1 lon1 d r"
    by blast
  from Cons.IH [OF s2] obtain new2 where
    n2: "ps' = ps1 @ new2" "\<forall>r\<in>set new2. \<exists>d\<in>set store. withinOwnRadius lat1 lon1 d r"
    by blast
  from n1 n2 have "ps' = ps @ (new1 @ new2)"
    "\<forall>r\<in>set (new1 @ new2). \<exists>d\<in>set store. withinOwnRadius lat1 lon1 d r"
    by auto
  then show ?case by blast
qed

text \<open>What a search that returns has gone through.\<close>

lemma search_Inr:
  assumes "searchServiceProviders lib users store request = (Inr results, reads)"
  shows "\<exists>st loc lat1 lon1 ps.
           serviceType request = Some st \<and> st \<noteq> [] \<and> location request = Some loc \<and>
           latitude loc = Some lat1 \<and> lat1 \<noteq> 0 \<and> longitude loc = Some lon1 \<and> lon1 \<noteq> 0 \<and>
           scanDocs users lat1 lon1 (queryProviders store st (encode lib lat1 lon1 1)) []
             [ProvidersQuery st (encode lib lat1 lon1 1)] = (Inr ps, reads) \<and>
           results = sort_key res_distance ps"
  using assms unfolding searchServiceProviders_def searchBody_def
  by (auto simp: prefixes_50km Let_def split: option.splits if_splits prod.splits sum.splits)

lemma scanDocs_ids:
  assumes "scanDocs users lat1 lon1 docs ps rs = (Inr ps', rs')"
    and "distinct (map res_id ps)" and "distinct (map docId docs)"
    and "set (map res_id ps) \<inter> set (map docId docs) = {}"
  shows "distinct (map res_id ps') \<and> set (map res_id ps') \<subseteq> set (map res_id ps) \<union> set (map docId docs)"
  using assms
proof (induction docs arbitrary: ps rs)
  case Nil
  then show ?case by simp
next
  case (Cons d docs)
  then obtain ps1 rs1 where s1: "scanDoc users lat1 lon1 d ps rs = (Inr ps1, rs1)"
    and s2: "scanDocs users lat1 lon1 docs ps1 rs1 = (Inr ps', rs')"
    by (auto split: prod.splits sum.splits)
  define ids0 where "ids0 = map res_id ps"
  define ids1 where "ids1 = map res_id ps1"
  define dids where "dids = map docId docs"
  from scanDoc_Inr [OF s1] have ids: "ids1 = ids0 \<or> ids1 = ids0 @ [docId d]"
    by (auto simp: withinOwnRadius_def ids0_def ids1_def)
  from Cons.prems have p: "distinct ids0" "distinct (docId d # dids)"
    "set ids0 \<inter> set (docId d # dids) = {}"
    by (simp_all add: ids0_def dids_def)
  from ids p have "distinct ids1" "set ids1 \<inter> set dids = {}"
    "set ids1 \<subseteq> set ids0 \<union> set (docId d # dids)"
    by auto
  then have d1: "distinct (map res_id ps1)" and d3: "set (map res_id ps1) \<inter> set (map docId docs) = {}"
    and d4: "set (map res_id ps1) \<subseteq> set (map res_id ps) \<union> set (map docId (d # docs))"
    by (simp_all add: ids0_def ids1_def dids_def)
  from p have d2: "distinct (map docId docs)" by (simp add: dids_def)
  from Cons.IH [OF s2 d1 d2 d3] have r: "distinct (map res_id ps')"
    "set (map res_id ps') \<subseteq> set (map res_id ps1) \<union> set (map docId docs)"
    by blast+
  from r(2) d4 have "set (map res_id ps') \<subseteq> set (map res_id ps) \<union> set (map docId (d # docs))"
    by (simp only: list.map list.set) blast
  with r(1) show ?case by blast
qed

lemma distinct_map_sort_key:
  "distinct (map f (sort_key k xs)) = distinct (map f xs)"
  by (simp add: distinct_map)

lemma scanDoc_skipped:
  "skipped d \<Longrightarrow> scanDoc users lat1 lon1 d ps rs = (Inr ps, rs)"
  by (auto simp: skipped_def scanDoc_def split: option.splits)

lemma scanDocs_append:
  "scanDocs users lat1 lon1 (xs @ ys) ps rs =
     (case scanDocs users lat1 lon1 xs ps rs of
        (Inl e, rs') \<Rightarrow> (Inl e, rs')
      | (Inr ps', rs') \<Rightarrow> scanDocs users lat1 lon1 ys ps' rs')"
  by (induction xs arbitrary: ps rs) (auto split: prod.splits sum.splits)

lemma scanDocs_skipped:
  assumes "skipped d"
  shows "scanDocs users lat1 lon1 (xs @ d # ys) ps rs = scanDocs users lat1 lon1 (xs @ ys) ps rs"
  using assms by (simp add: scanDocs_append scanDoc_skipped split: prod.splits sum.splits)

lemma scanDocs_query_skipped:
  assumes "skipped d"
  shows "scanDocs users lat1 lon1 (queryProviders (xs @ d # ys) st p) ps rs =
         scanDocs users lat1 lon1 (queryProviders (xs @ ys) st p) ps rs"
  using scanDocs_skipped [OF assms] by (simp add: queryProviders_def)

lemma scanPrefixes_skipped:
  assumes "skipped d"
  shows "scanPrefixes users (xs @ d # ys) st lat1 lon1 prefixes ps rs =
         scanPrefixes users (xs @ ys) st lat1 lon1 prefixes ps rs"
  by (induction prefixes arbitrary: ps rs)
     (simp_all add: scanDocs_query_skipped [OF assms] Let_def split: prod.splits sum.splits)

lemma search_skipped:
  assumes "skipped d"
  shows "searchServiceProviders lib users (xs @ d # ys) request =
         searchServiceProviders lib users (xs @ ys) request"
  unfolding searchServiceProviders_def searchBody_def scanPrefixes_skipped [OF assms] ..

lemma scanDoc_no_coordinates:
  assumes "workingPreferences d = Some wp" "serviceArea wp = Some sa" "coordinates sa = None"
  shows "\<exists>e. scanDoc users lat1 lon1 d ps rs = (Inl e, rs)"
  using assms by (simp add: scanDoc_def)

lemma search_invalid:
  assumes "invalidRequest request"
  shows "searchServiceProviders lib users store request =
           (Inl (Error ''Failed to search service providers: Invalid request parameters''), [])"
  using assms unfolding invalidRequest_def searchServiceProviders_def searchBody_def
  by (auto split: option.splits)


section \<open>Distances and the example search\<close>

lemma calculateDistance_same: "calculateDistance lat1 lon1 lat1 lon1 = 0"
  by (simp add: calculateDistance_def atan2_def)

lemma atan2_sin_cos:
  assumes "0 \<le> x" "x < pi / 2"
  shows "atan2 (sin x) (cos x) = x"
proof -
  from assms have c: "cos x > 0" by (intro cos_gt_zero_pi) simp_all
  have "arctan (tan x) = x" using assms by (intro arctan_tan) simp_all
  with c show ?thesis by (simp add: atan2_def tan_def)
qed

lemma calculateDistance_meridian:
  assumes "\<bar>lat2 - lat1\<bar> < 180"
  shows "calculateDistance lat1 lon1 lat2 lon1 = 6371 * (\<bar>lat2 - lat1\<bar> * (pi / 180))"
proof -
  define x where "x = \<bar>lat2 - lat1\<bar> * (pi / 180) / 2"
  have x: "0 \<le> x" "x < pi / 2" using assms by (simp_all add: x_def)
  then have s: "0 \<le> sin x" and c: "0 < cos x"
    by (simp_all add: sin_ge_zero cos_gt_zero_pi)
  have sq: "sin ((lat2 - lat1) * (pi / 180) / 2) * sin ((lat2 - lat1) * (pi / 180) / 2) = sin x * sin x"
  proof (cases "lat2 - lat1 \<ge> 0")
    case True
    then show ?thesis by (simp add: x_def)
  next
    case False
    then have "\<bar>lat2 - lat1\<bar> = - (lat2 - lat1)" by simp
    then have "x = - ((lat2 - lat1) * (pi / 180) / 2)" unfolding x_def by (simp only: mult_minus_left minus_divide_left)
    then have "(lat2 - lat1) * (pi / 180) / 2 = - x" by simp
    then show ?thesis by (simp only: sin_minus minus_mult_minus)
  qed
  have a: "sin ((lat2 - lat1) * (pi / 180) / 2) * sin ((lat2 - lat1) * (pi / 180) / 2) +
           cos (lat1 * (pi / 180)) * cos (lat2 * (pi / 180)) *
           sin ((lon1 - lon1) * (pi / 180) / 2) * sin ((lon1 - lon1) * (pi / 180) / 2) = sin x * sin x"
    using sq by simp
  have r1: "sqrt (sin x * sin x) = sin x" using s by simp
  have "1 - sin x * sin x = cos x * cos x"
    using sin_cos_squared_add [of x] by (simp add: power2_eq_square algebra_simps)
  then have r2: "sqrt (1 - sin x * sin x) = cos x" using c by simp
  have "calculateDistance lat1 lon1 lat2 lon1 = 6371 * (2 * atan2 (sin x) (cos x))"
    unfolding calculateDistance_def Let_def a r1 r2 ..
  also have "\<dots> = 6371 * (2 * x)" using atan2_sin_cos [OF x] by simp
  finally show ?thesis by (simp add: x_def)
qed

lemma enc_lagos_1: "ngeohash_encode lagos_lat lagos_lon 1 = ''s''" by code_simp
lemma enc_lagos_3: "ngeohash_encode lagos_lat lagos_lon 3 = ''s14''" by code_simp

lemma far_distance: "calculateDistance lagos_lat lagos_lon far_lat lagos_lon > 5"
proof -
  have "calculateDistance lagos_lat lagos_lon far_lat lagos_lon = 6371 * (\<bar>far_lat - lagos_lat\<bar> * (pi / 180))"
    by (rule calculateDistance_meridian) (simp add: far_lat_def lagos_lat_def)
  moreover have "(5::real) < 6371 * (\<bar>far_lat - lagos_lat\<bar> * (pi / 180))"
    using pi_ge_two by (simp add: far_lat_def lagos_lat_def)
  ultimately show ?thesis by simp
qed

lemma near_distance:
  "calculateDistance lagos_lat lagos_lon near_lat lagos_lon \<le> 1"
  "Math_round (calculateDistance lagos_lat lagos_lon near_lat lagos_lon * 1000) = 1"
proof -
  have d: "calculateDistance lagos_lat lagos_lon near_lat lagos_lon = 6371 * (\<bar>near_lat - lagos_lat\<bar> * (pi / 180))"
    by (rule calculateDistance_meridian) (simp add: near_lat_def lagos_lat_def)
  have e: "6371 * (\<bar>near_lat - lagos_lat\<bar> * (pi / 180)) * 1000 = 6371 / 18000 * pi"
    by (simp add: near_lat_def lagos_lat_def)
  have lo: "1 / 2 \<le> 6371 / 18000 * pi" using pi_ge_two by simp
  have hi: "6371 / 18000 * pi < 3 / 2" using pi_less_4 by simp
  from hi show "calculateDistance lagos_lat lagos_lon near_lat lagos_lon \<le> 1"
    unfolding d using e by linarith
  have "\<lfloor>6371 / 18000 * pi + 1 / 2\<rfloor> = 1" using lo hi by linarith
  then show "Math_round (calculateDistance lagos_lat lagos_lon near_lat lagos_lon * 1000) = 1"
    unfolding Math_round_def d e .
qed

lemmas example_defs =
  example_store_def example_users_def example_request_def example_lib_def example_reads_def
  provider_near_def provider_here_def provider_far_def provider_no_latitude_def
  provider_inactive_def provider_no_coordinates_def example_provider_def example_area_def
  result_here_def result_near_def example_result_def

lemma Math_round_zero: "Math_round 0 = 0"
  by (simp add: Math_round_def)

lemma lagos_nonzero: "lagos_lat \<noteq> 0" "lagos_lon \<noteq> 0"
  by (simp_all add: lagos_lat_def lagos_lon_def)

lemma far_not_within: "\<not> calculateDistance lagos_lat lagos_lon far_lat lagos_lon \<le> 5"
  using far_distance by simp

lemma example_scan:
  "scanDocs example_users lagos_lat lagos_lon
     [provider_near, provider_no_latitude, provider_far, provider_here] []
     [ProvidersQuery ''classic-cleaning'' ''s''] =
   (Inr [result_near, result_here], example_reads)"
  by (simp add: example_defs scanDoc_def calculateDistance_same far_not_within near_distance
      Math_round_zero orEmpty_def)

lemma example_query:
  "queryProviders example_store ''classic-cleaning'' ''s'' =
     [provider_near, provider_no_latitude, provider_far, provider_here]"
  by (simp add: example_defs queryProviders_def geohashOf_def)

lemma example_search:
  "searchServiceProviders example_lib example_users example_store example_request =
     (Inr [result_here, result_near], example_reads)"
proof -
  have p: "getGeohashPrefixesForSearch example_lib lagos_lat lagos_lon 50000 = [''s'']"
    by (simp add: prefixes_50km example_lib_def enc_lagos_1)
  have "res_distance result_here = 0" "res_distance result_near = 1"
    by (simp_all add: result_here_def result_near_def example_result_def)
  then have s: "sort_key res_distance [result_near, result_here] = [result_here, result_near]"
    by simp
  have q: "scanPrefixes example_users example_store ''classic-cleaning'' lagos_lat lagos_lon [''s''] [] [] =
          (Inr [result_near, result_here], example_reads)"
    by (simp add: example_query example_scan del: scanDocs.simps)
  show ?thesis
    by (simp add: searchServiceProviders_def searchBody_def example_request_def lagos_nonzero p q s
        del: scanPrefixes.simps sort_key_simps)
qed

lemma Math_round_nearest:
  "real_of_int (Math_round x) - 1 / 2 \<le> x \<and> x < real_of_int (Math_round x) + 1 / 2"
  unfolding Math_round_def by linarith

lemma pi_ge_three: "3 \<le> pi"
proof -
  have "sin (pi / 6) \<le> pi / 6" by (rule sin_x_le_x) simp
  then show ?thesis by (simp add: sin_30)
qed

lemma up_distance:
  "calculateDistance lagos_lat lagos_lon up_lat lagos_lon * 1000 = pi / 2"
  "calculateDistance lagos_lat lagos_lon up_lat lagos_lon \<le> 1"
  "Math_round (calculateDistance lagos_lat lagos_lon up_lat lagos_lon * 1000) = 2"
proof -
  have d: "calculateDistance lagos_lat lagos_lon up_lat lagos_lon = 6371 * (\<bar>up_lat - lagos_lat\<bar> * (pi / 180))"
    by (rule calculateDistance_meridian) (simp add: up_lat_def lagos_lat_def)
  have e: "6371 * (\<bar>up_lat - lagos_lat\<bar> * (pi / 180)) * 1000 = pi / 2"
    by (simp add: up_lat_def lagos_lat_def)
  show k: "calculateDistance lagos_lat lagos_lon up_lat lagos_lon * 1000 = pi / 2"
    unfolding d by (rule e)
  from k pi_less_4 show "calculateDistance lagos_lat lagos_lon up_lat lagos_lon \<le> 1" by linarith
  have "\<lfloor>pi / 2 + 1 / 2\<rfloor> = 2" using pi_ge_three pi_less_4 by linarith
  then show "Math_round (calculateDistance lagos_lat lagos_lon up_lat lagos_lon * 1000) = 2"
    unfolding Math_round_def k .
qed

lemmas rounding_defs = provider_up_def result_up_def

lemma rounding_search:
  "searchServiceProviders example_lib example_users [provider_up, provider_here] example_request =
     (Inr [result_here, result_up],
      [ProvidersQuery ''classic-cleaning'' ''s'', UsersGet ''up'', UsersGet ''here''])"
proof -
  have p: "getGeohashPrefixesForSearch example_lib lagos_lat lagos_lon 50000 = [''s'']"
    by (simp add: prefixes_50km example_lib_def enc_lagos_1)
  have q: "queryProviders [provider_up, provider_here] ''classic-cleaning'' ''s'' =
             [provider_up, provider_here]"
    by (simp add: example_defs rounding_defs queryProviders_def geohashOf_def)
  have c: "scanDocs example_users lagos_lat lagos_lon [provider_up, provider_here] []
             [ProvidersQuery ''classic-cleaning'' ''s''] =
           (Inr [result_up, result_here],
            [ProvidersQuery ''classic-cleaning'' ''s'', UsersGet ''up'', UsersGet ''here''])"
    by (simp add: example_defs rounding_defs scanDoc_def calculateDistance_same up_distance(2,3)
        Math_round_zero orEmpty_def)
  have "res_distance result_here = 0" "res_distance result_up = 2"
    by (simp_all add: result_here_def result_up_def example_result_def)
  then have s: "sort_key res_distance [result_up, result_here] = [result_here, result_up]"
    by simp
  have k: "scanPrefixes example_users [provider_up, provider_here] ''classic-cleaning''
             lagos_lat lagos_lon [''s''] [] [] =
           (Inr [result_up, result_here],
            [ProvidersQuery ''classic-cleaning'' ''s'', UsersGet ''up'', UsersGet ''here''])"
    by (simp add: q c del: scanDocs.simps)
  show ?thesis
    by (simp add: searchServiceProviders_def searchBody_def example_request_def lagos_nonzero p k s
        del: scanPrefixes.simps sort_key_simps)
qed

lemma scanDoc_reads:
  assumes "scanDoc users lat1 lon1 d ps rs = (res, rs')"
  shows "\<exists>us. rs' = rs @ map UsersGet us"
proof -
  from assms have "rs' = rs @ map UsersGet [] \<or> rs' = rs @ map UsersGet [userId d]"
    unfolding scanDoc_def by (auto simp: Let_def split: option.splits if_splits)
  then show ?thesis by blast
qed

lemma scanDocs_reads:
  assumes "scanDocs users lat1 lon1 docs ps rs = (res, rs')"
  shows "\<exists>us. rs' = rs @ map UsersGet us"
  using assms
proof (induction docs arbitrary: ps rs)
  case Nil
  then have "rs' = rs @ map UsersGet []" by simp
  then show ?case by blast
next
  case (Cons d docs)
  obtain r1 rs1 where s1: "scanDoc users lat1 lon1 d ps rs = (r1, rs1)" by (cases "scanDoc users lat1 lon1 d ps rs")
  from scanDoc_reads [OF s1] obtain us1 where u1: "rs1 = rs @ map UsersGet us1" by blast
  show ?case
  proof (cases r1)
    case (Inl e)
    with s1 Cons.prems have "rs' = rs1" by simp
    with u1 show ?thesis by blast
  next
    case (Inr ps1)
    with s1 Cons.prems have "scanDocs users lat1 lon1 docs ps1 rs1 = (res, rs')" by simp
    from Cons.IH [OF this] obtain us2 where "rs' = rs1 @ map UsersGet us2" by blast
    with u1 have "rs' = rs @ map UsersGet (us1 @ us2)" by simp
    then show ?thesis by blast
  qed
qed

lemma search_reads:
  assumes "searchServiceProviders lib users store request = (Inr results, reads)"
  shows "\<exists>st p us. reads = ProvidersQuery st p # map UsersGet us"
proof -
  from search_Inr [OF assms] obtain st lat1 lon1 ps where
    "scanDocs users lat1 lon1 (queryProviders store st (encode lib lat1 lon1 1)) []
       [ProvidersQuery st (encode lib lat1 lon1 1)] = (Inr ps, reads)"
    by blast
  from scanDocs_reads [OF this] show ?thesis by auto
qed

lemma search_within:
  assumes "searchServiceProviders lib users store request = (Inr results, reads)"
  shows "\<exists>loc lat1 lon1. location request = Some loc \<and> latitude loc = Some lat1 \<and> longitude loc = Some lon1 \<and>
           (\<forall>r\<in>set results. \<exists>d\<in>set store. withinOwnRadius lat1 lon1 d r)"
proof -
  from search_Inr [OF assms] obtain st loc lat1 lon1 ps where
    l: "location request = Some loc" "latitude loc = Some lat1" "longitude loc = Some lon1"
    and s: "scanDocs users lat1 lon1 (queryProviders store st (encode lib lat1 lon1 1)) []
       [ProvidersQuery st (encode lib lat1 lon1 1)] = (Inr ps, reads)"
    and r: "results = sort_key res_distance ps"
    by blast
  from scanDocs_Inr [OF s] set_queryProviders [of store st "encode lib lat1 lon1 1"]
  have "\<forall>r\<in>set ps. \<exists>d\<in>set store. withinOwnRadius lat1 lon1 d r" by auto
  with r have "\<forall>r\<in>set results. \<exists>d\<in>set store. withinOwnRadius lat1 lon1 d r" by simp
  with l show ?thesis by blast
qed

lemma search_distinct:
  assumes "distinct (map docId store)"
    and "searchServiceProviders lib users store request = (Inr results, reads)"
  shows "distinct (map res_id results)"
proof -
  from search_Inr [OF assms(2)] obtain st lat1 lon1 ps where
    s: "scanDocs users lat1 lon1 (queryProviders store st (encode lib lat1 lon1 1)) []
       [ProvidersQuery st (encode lib lat1 lon1 1)] = (Inr ps, reads)"
    and r: "results = sort_key res_distance ps"
    by blast
  have "distinct (map docId (queryProviders store st (encode lib lat1 lon1 1)))"
    using assms(1) by (simp add: queryProviders_def distinct_map_filter)
  with scanDocs_ids [OF s] have "distinct (map res_id ps)" by simp
  with r show ?thesis by (simp add: distinct_map_sort_key)
qed

section \<open>Properties of the provider search\<close>

text \<open>
  C1. Every provider in the result of a search is within its own declared radius of the
  query point: the result carries the working preferences of a stored provider whose
  service area has a center and a radius, and the distance computed by
  \<open>calculateDistance\<close> (kilometers) from the query coordinate to that center is at most
  the radius (meters) divided by 1000. The bound is the provider's own radius, whatever
  prefix the 50 km scan radius selected.
\<close>

theorem filter_correctness:
  assumes "searchServiceProviders lib users store request = (Inr results, reads)"
    and "r \<in> set results"
  shows "\<exists>loc lat1 lon1 d wp sa c lat2 lon2 rad.
           location request = Some loc \<and> latitude loc = Some lat1 \<and> longitude loc = Some lon1 \<and>
           d \<in> set store \<and> res_id r = docId d \<and>
           workingPreferences d = Some wp \<and> res_workingPreferences r = Some wp \<and>
           serviceArea wp = Some sa \<and> coordinates sa = Some c \<and>
           latitude c = Some lat2 \<and> longitude c = Some lon2 \<and> radius sa = Some rad \<and>
           calculateDistance lat1 lon1 lat2 lon2 \<le> rad / 1000"
proof -
  from search_within [OF assms(1)] assms(2) obtain loc lat1 lon1 d where
    "location request = Some loc" "latitude loc = Some lat1" "longitude loc = Some lon1"
    "d \<in> set store" "withinOwnRadius lat1 lon1 d r"
    by blast
  then show ?thesis unfolding withinOwnRadius_def by (metis (no_types, lifting))
qed

theorem filter_correctness_witness:
  "searchServiceProviders example_lib example_users example_store example_request =
     (Inr [result_here, result_near], example_reads) \<and>
   result_near \<in> set [result_here, result_near] \<and>
   calculateDistance lagos_lat lagos_lon near_lat lagos_lon \<le> 1000 / 1000"
proof -
  have m: "result_near \<in> set [result_here, result_near]" by simp
  from filter_correctness [OF example_search m]
  have "calculateDistance lagos_lat lagos_lon near_lat lagos_lon \<le> 1000 / 1000"
    by (auto simp: example_defs)
  with example_search m show ?thesis by blast
qed

text \<open>
  C3 (as the code has it). A candidate whose service area is absent, or is present with its
  coordinates object but without a latitude, a longitude or a radius, is left out and raises
  nothing: the search gives exactly the outcome and the store reads it gives without that
  record.
\<close>

theorem incomplete_area_skipped:
  "skipped d \<Longrightarrow>
   searchServiceProviders lib users (xs @ d # ys) request =
   searchServiceProviders lib users (xs @ ys) request"
  by (rule search_skipped)

theorem incomplete_area_skipped_witness:
  "skipped provider_no_latitude \<and>
   searchServiceProviders example_lib example_users
     ([provider_near] @ provider_no_latitude # [provider_far, provider_inactive, provider_here])
     example_request =
   searchServiceProviders example_lib example_users
     ([provider_near] @ [provider_far, provider_inactive, provider_here]) example_request \<and>
   searchServiceProviders example_lib example_users
     ([provider_near] @ provider_no_latitude # [provider_far, provider_inactive, provider_here])
     example_request = (Inr [result_here, result_near], example_reads)"
proof -
  have s: "skipped provider_no_latitude"
    by (simp add: skipped_def example_defs)
  have e: "[provider_near] @ provider_no_latitude # [provider_far, provider_inactive, provider_here] = example_store"
    by (simp add: example_store_def)
  from incomplete_area_skipped [OF s, of example_lib example_users "[provider_near]"
      "[provider_far, provider_inactive, provider_here]" example_request] s example_search
  show ?thesis unfolding e by simp
qed

text \<open>
  C3 as stated fails for a service area that is present without its coordinates object:
  reading \<open>serviceArea.coordinates.latitude\<close> throws, the \<open>catch\<close> clause rethrows, and
  the whole search fails although two other providers match.
\<close>

theorem missing_coordinates_abort:
  "searchServiceProviders example_lib example_users
     [provider_near, provider_no_coordinates, provider_here] example_request =
   (Inl (Error ''Failed to search service providers: Cannot read properties of undefined (reading 'latitude')''),
    [ProvidersQuery ''classic-cleaning'' ''s'', UsersGet ''near''])"
proof -
  have p: "getGeohashPrefixesForSearch example_lib lagos_lat lagos_lon 50000 = [''s'']"
    by (simp add: prefixes_50km example_lib_def enc_lagos_1)
  have q: "queryProviders [provider_near, provider_no_coordinates, provider_here] ''classic-cleaning'' ''s'' =
             [provider_near, provider_no_coordinates, provider_here]"
    by (simp add: example_defs queryProviders_def geohashOf_def)
  have s: "scanDocs example_users lagos_lat lagos_lon
             [provider_near, provider_no_coordinates, provider_here] []
             [ProvidersQuery ''classic-cleaning'' ''s''] =
           (Inl (TypeError ''Cannot read properties of undefined (reading 'latitude')''),
            [ProvidersQuery ''classic-cleaning'' ''s'', UsersGet ''near''])"
    by (simp add: example_defs scanDoc_def near_distance orEmpty_def)
  have "scanPrefixes example_users [provider_near, provider_no_coordinates, provider_here]
          ''classic-cleaning'' lagos_lat lagos_lon [''s''] [] [] =
        (Inl (TypeError ''Cannot read properties of undefined (reading 'latitude')''),
            [ProvidersQuery ''classic-cleaning'' ''s'', UsersGet ''near''])"
    by (simp add: q s del: scanDocs.simps)
  then show ?thesis
    by (simp add: searchServiceProviders_def searchBody_def example_request_def lagos_nonzero p
        del: scanPrefixes.simps)
qed

text \<open>
  C4. Over a store whose document ids are unique, the result of a search holds each
  provider id at most once. The search issues a single range query (the 50 km radius always
  selects one prefix) followed by profile reads only, so no provider is returned by two
  prefix ranges.
\<close>

theorem result_ids_distinct:
  assumes "distinct (map docId store)"
    and "searchServiceProviders lib users store request = (Inr results, reads)"
  shows "distinct (map res_id results) \<and>
         (\<exists>st p us. reads = ProvidersQuery st p # map UsersGet us)"
  using search_distinct [OF assms] search_reads [OF assms(2)] by blast

theorem result_ids_distinct_witness:
  "distinct (map docId example_store) \<and>
   searchServiceProviders example_lib example_users example_store example_request =
     (Inr [result_here, result_near], example_reads) \<and>
   distinct (map res_id [result_here, result_near])"
proof -
  have d: "distinct (map docId example_store)" by (simp add: example_defs)
  from result_ids_distinct [OF d example_search] d example_search show ?thesis by blast
qed

text \<open>
  C6. A search that returns gives its results in non-decreasing order of \<open>distance\<close>,
  and the \<open>distance\<close> of each result is the distance of \<open>calculateDistance\<close> (kilometers)
  from the query point to the center of its service area, times 1000, rounded to the nearest
  integer by \<open>Math.round\<close>: the integer within half a meter of it, a half rounding up.
\<close>

theorem results_sorted_by_distance:
  assumes "searchServiceProviders lib users store request = (Inr results, reads)"
  shows "sorted (map res_distance results) \<and>
         (\<forall>r\<in>set results.
            \<exists>loc lat1 lon1 wp sa c lat2 lon2.
              location request = Some loc \<and> latitude loc = Some lat1 \<and> longitude loc = Some lon1 \<and>
              res_workingPreferences r = Some wp \<and> serviceArea wp = Some sa \<and>
              coordinates sa = Some c \<and> latitude c = Some lat2 \<and> longitude c = Some lon2 \<and>
              res_distance r = Math_round (calculateDistance lat1 lon1 lat2 lon2 * 1000) \<and>
              real_of_int (res_distance r) - 1 / 2 \<le> calculateDistance lat1 lon1 lat2 lon2 * 1000 \<and>
              calculateDistance lat1 lon1 lat2 lon2 * 1000 < real_of_int (res_distance r) + 1 / 2)"
proof -
  from search_Inr [OF assms] obtain ps where "results = sort_key res_distance ps" by blast
  then have "sorted (map res_distance results)" by (simp add: sorted_sort_key)
  moreover from search_within [OF assms] obtain loc lat1 lon1 where
    l: "location request = Some loc" "latitude loc = Some lat1" "longitude loc = Some lon1"
    and w: "\<forall>r\<in>set results. \<exists>d\<in>set store. withinOwnRadius lat1 lon1 d r"
    by blast
  have "\<forall>r\<in>set results.
            \<exists>loc lat1 lon1 wp sa c lat2 lon2.
              location request = Some loc \<and> latitude loc = Some lat1 \<and> longitude loc = Some lon1 \<and>
              res_workingPreferences r = Some wp \<and> serviceArea wp = Some sa \<and>
              coordinates sa = Some c \<and> latitude c = Some lat2 \<and> longitude c = Some lon2 \<and>
              res_distance r = Math_round (calculateDistance lat1 lon1 lat2 lon2 * 1000) \<and>
              real_of_int (res_distance r) - 1 / 2 \<le> calculateDistance lat1 lon1 lat2 lon2 * 1000 \<and>
              calculateDistance lat1 lon1 lat2 lon2 * 1000 < real_of_int (res_distance r) + 1 / 2"
  proof
    fix r assume "r \<in> set results"
    with w obtain d where "withinOwnRadius lat1 lon1 d r" by blast
    then obtain wp sa c lat2 lon2 where
      f: "res_workingPreferences r = Some wp" "serviceArea wp = Some sa" "coordinates sa = Some c"
         "latitude c = Some lat2" "longitude c = Some lon2"
      and m: "res_distance r = Math_round (calculateDistance lat1 lon1 lat2 lon2 * 1000)"
      unfolding withinOwnRadius_def by (metis (no_types, lifting))
    from m Math_round_nearest [of "calculateDistance lat1 lon1 lat2 lon2 * 1000"]
    have b: "real_of_int (res_distance r) - 1 / 2 \<le> calculateDistance lat1 lon1 lat2 lon2 * 1000"
      "calculateDistance lat1 lon1 lat2 lon2 * 1000 < real_of_int (res_distance r) + 1 / 2"
      by simp_all
    from l f m b show "\<exists>loc lat1 lon1 wp sa c lat2 lon2.
              location request = Some loc \<and> latitude loc = Some lat1 \<and> longitude loc = Some lon1 \<and>
              res_workingPreferences r = Some wp \<and> serviceArea wp = Some sa \<and>
              coordinates sa = Some c \<and> latitude c = Some lat2 \<and> longitude c = Some lon2 \<and>
              res_distance r = Math_round (calculateDistance lat1 lon1 lat2 lon2 * 1000) \<and>
              real_of_int (res_distance r) - 1 / 2 \<le> calculateDistance lat1 lon1 lat2 lon2 * 1000 \<and>
              calculateDistance lat1 lon1 lat2 lon2 * 1000 < real_of_int (res_distance r) + 1 / 2"
      by blast
  qed
  ultimately show ?thesis by blast
qed

theorem results_sorted_by_distance_witness:
  "searchServiceProviders example_lib example_users example_store example_request =
     (Inr [result_here, result_near], example_reads) \<and>
   sorted (map res_distance [result_here, result_near]) \<and>
   map res_distance [result_here, result_near] = [0, 1] \<and>
   res_distance result_near = Math_round (calculateDistance lagos_lat lagos_lon near_lat lagos_lon * 1000) \<and>
   searchServiceProviders example_lib example_users [provider_up, provider_here] example_request =
     (Inr [result_here, result_up],
      [ProvidersQuery ''classic-cleaning'' ''s'', UsersGet ''up'', UsersGet ''here'']) \<and>
   map res_distance [result_here, result_up] = [0, 2] \<and>
   calculateDistance lagos_lat lagos_lon up_lat lagos_lon * 1000 = pi / 2 \<and>
   real_of_int 2 - 1 / 2 \<le> calculateDistance lagos_lat lagos_lon up_lat lagos_lon * 1000 \<and>
   calculateDistance lagos_lat lagos_lon up_lat lagos_lon * 1000 < real_of_int 2 + 1 / 2"
proof -
  from results_sorted_by_distance [OF example_search]
  have "sorted (map res_distance [result_here, result_near])"
    and "\<exists>loc lat1 lon1 wp sa c lat2 lon2.
              location example_request = Some loc \<and> latitude loc = Some lat1 \<and> longitude loc = Some lon1 \<and>
              res_workingPreferences result_near = Some wp \<and> serviceArea wp = Some sa \<and>
              coordinates sa = Some c \<and> latitude c = Some lat2 \<and> longitude c = Some lon2 \<and>
              res_distance result_near = Math_round (calculateDistance lat1 lon1 lat2 lon2 * 1000)"
    by auto
  then have "sorted (map res_distance [result_here, result_near])"
    and "res_distance result_near = Math_round (calculateDistance lagos_lat lagos_lon near_lat lagos_lon * 1000)"
    by (auto simp: example_defs)
  moreover have "map res_distance [result_here, result_near] = [0, 1]"
    by (simp add: example_defs)
  moreover from results_sorted_by_distance [OF rounding_search]
  have "\<exists>loc lat1 lon1 wp sa c lat2 lon2.
              location example_request = Some loc \<and> latitude loc = Some lat1 \<and> longitude loc = Some lon1 \<and>
              res_workingPreferences result_up = Some wp \<and> serviceArea wp = Some sa \<and>
              coordinates sa = Some c \<and> latitude c = Some lat2 \<and> longitude c = Some lon2 \<and>
              real_of_int (res_distance result_up) - 1 / 2 \<le> calculateDistance lat1 lon1 lat2 lon2 * 1000 \<and>
              calculateDistance lat1 lon1 lat2 lon2 * 1000 < real_of_int (res_distance result_up) + 1 / 2"
    by auto
  then have "real_of_int 2 - 1 / 2 \<le> calculateDistance lagos_lat lagos_lon up_lat lagos_lon * 1000"
    and "calculateDistance lagos_lat lagos_lon up_lat lagos_lon * 1000 < real_of_int 2 + 1 / 2"
    by (auto simp: example_defs rounding_defs)
  moreover have "map res_distance [result_here, result_up] = [0, 2]"
    by (simp add: example_defs rounding_defs)
  ultimately show ?thesis using example_search rounding_search up_distance(1) by blast
qed

text \<open>
  C7. When the service type is absent or empty, or the location is absent or lacks its
  latitude or its longitude, the search fails with the invalid-request error (the message
  \<open>Invalid request parameters\<close> under the prefix that the \<open>catch\<close> clause adds) and has
  issued no read against the store.
\<close>

theorem invalid_request_rejected:
  assumes "serviceType request = None \<or> serviceType request = Some [] \<or> location request = None \<or>
           (\<exists>loc. location request = Some loc \<and> (latitude loc = None \<or> longitude loc = None))"
  shows "searchServiceProviders lib users store request =
           (Inl (Error ''Failed to search service providers: Invalid request parameters''), [])"
proof -
  from assms have "invalidRequest request"
    by (auto simp: invalidRequest_def)
  then show ?thesis by (rule search_invalid)
qed

theorem invalid_request_rejected_witness:
  "location (example_request\<lparr>location := Some \<lparr>latitude = Some lagos_lat, longitude = None\<rparr>\<rparr>) =
     Some \<lparr>latitude = Some lagos_lat, longitude = None\<rparr> \<and>
   searchServiceProviders example_lib example_users example_store
     (example_request\<lparr>location := Some \<lparr>latitude = Some lagos_lat, longitude = None\<rparr>\<rparr>) =
     (Inl (Error ''Failed to search service providers: Invalid request parameters''), [])"
  using invalid_request_rejected [of "example_request\<lparr>location := Some \<lparr>latitude = Some lagos_lat, longitude = None\<rparr>\<rparr>"
      example_lib example_users example_store]
  by simp

text \<open>
  C10. A query whose latitude is 0 or whose longitude is 0, or whose service type is the
  empty string, is rejected with the same invalid-request error and no store read: the
  guard tests the truthiness of the fields, and 0 is falsy.
\<close>

theorem zero_coordinate_rejected:
  assumes "(\<exists>loc. location request = Some loc \<and> (latitude loc = Some 0 \<or> longitude loc = Some 0)) \<or>
           serviceType request = Some []"
  shows "searchServiceProviders lib users store request =
           (Inl (Error ''Failed to search service providers: Invalid request parameters''), [])"
proof -
  from assms have "invalidRequest request"
    by (auto simp: invalidRequest_def)
  then show ?thesis by (rule search_invalid)
qed

theorem zero_coordinate_rejected_witness:
  "location (example_request\<lparr>location := Some \<lparr>latitude = Some 0, longitude = Some lagos_lon\<rparr>\<rparr>) =
     Some \<lparr>latitude = Some 0, longitude = Some lagos_lon\<rparr> \<and>
   searchServiceProviders example_lib example_users example_store
     (example_request\<lparr>location := Some \<lparr>latitude = Some 0, longitude = Some lagos_lon\<rparr>\<rparr>) =
     (Inl (Error ''Failed to search service providers: Invalid request parameters''), [])"
  using zero_coordinate_rejected [of "example_request\<lparr>location := Some \<lparr>latitude = Some 0, longitude = Some lagos_lon\<rparr>\<rparr>"
      example_lib example_users example_store]
  by simp



text \<open>C5, at the example coordinate: radius 500 m (precision 3) and radius 50 km (precision 1).\<close>

theorem prefixes_for_search_witness:
  "(500::real) \<le> 1000 \<and>
   getGeohashPrefixesForSearch example_lib lagos_lat lagos_lon 500 =
     [''s14'', ''s16'', ''s17'', ''s15'', ''s0g'', ''s0f'', ''s0c'', ''s11'', ''s13''] \<and>
   ''s14'' \<in> set (getGeohashPrefixesForSearch example_lib lagos_lat lagos_lon 500) \<and>
   (50000::real) > 1000 \<and>
   getGeohashPrefixesForSearch example_lib lagos_lat lagos_lon 50000 = [''s'']"
proof -
  have g3: "generateGeohash example_lib lagos_lat lagos_lon 3 = ''s14''"
    by (simp add: generateGeohash_def example_lib_def enc_lagos_3)
  have g1: "generateGeohash example_lib lagos_lat lagos_lon 1 = ''s''"
    by (simp add: generateGeohash_def example_lib_def enc_lagos_1)
  have p: "getGeohashPrecisionForRadius 500 = 3" "getGeohashPrecisionForRadius 50000 = 1"
    by (simp_all add: getGeohashPrecisionForRadius_def)
  have n: "getGeohashNeighbors example_lib ''s14'' = [''s16'', ''s17'', ''s15'', ''s0g'', ''s0f'', ''s0c'', ''s11'', ''s13'']"
    by (simp add: getGeohashNeighbors_def example_lib_def example_neighbors_def)
  from prefixes_for_search [of 500 example_lib lagos_lat lagos_lon]
    prefixes_for_search [of 50000 example_lib lagos_lat lagos_lon]
  show ?thesis by (simp add: g3 g1 p n)
qed

end
